theory Spec2Isabelle
  imports Main "HOL-Library.Word"
begin

section \<open>The login server's message handler (src/server/login/LoginServer.ts)\<close>

text \<open>
  The handler is the body of the \<^verbatim>\<open>s.on('message', ...)\<close> callback. It reads and writes
  three stores: the \<^verbatim>\<open>account\<close> table, the \<^verbatim>\<open>session\<close> table and the save files
  under \<^verbatim>\<open>data/players\<close>. The model passes these stores explicitly and returns the list of
  replies sent on the socket, in the order of the \<^verbatim>\<open>s.send\<close> calls.

  Conventions of the model:
  \<^item> a table is the list of its rows; \<^verbatim>\<open>executeTakeFirst\<close> on a select is the first matching
    row, an update changes every row that satisfies its \<^verbatim>\<open>where\<close>;
  \<^item> the file system is seen through the path strings the code builds: \<open>files st p\<close> is what
    reading the path \<open>p\<close> yields (\<open>None\<close> when nothing exists there). Which path strings name
    the same file, and whether \<^verbatim>\<open>mkdir\<close> or \<^verbatim>\<open>writeFile\<close> rejects (a username with a
    \<^verbatim>\<open>/\<close> whose directory is missing, for instance), is decided by the file system, a
    parameter of the model;
  \<^item> a rejected \<^verbatim>\<open>mkdir\<close> or \<^verbatim>\<open>writeFile\<close> is an exception: the handler stops there and the
    \<^verbatim>\<open>catch\<close> of line 184 only logs, so nothing after the call happens;
  \<^item> the calls of the database, \<^verbatim>\<open>existsSync\<close> and \<^verbatim>\<open>readFile\<close> are taken to succeed;
  \<^item> dates are integers (milliseconds), numbers of the messages are integers, strings are
    lists of bytes, used only through equality, concatenation and the parameters below;
  \<^item> a reply is the object literal given to \<^verbatim>\<open>JSON.stringify\<close>: its keys in order, each with
    its value.
\<close>

subsection \<open>Data\<close>

type_synonym bytes = "8 word list"

text \<open>A row of the \<^verbatim>\<open>account\<close> table, with the columns the handler reads or writes.\<close>

record account =
  id_col :: int
  username :: string
  password :: string
  logged_in :: int
  login_time :: "int option"
  banned_until :: "int option"
  muted_until :: "int option"
  staffmodlevel :: int

text \<open>A row of the \<^verbatim>\<open>session\<close> table (lines 72-80).\<close>

record session =
  uuid :: string
  account_id :: int
  profile :: string
  world :: int
  timestamp :: int
  uid :: int
  ip :: string

record state =
  accounts :: "account list"
  sessions :: "session list"
  files :: "string \<rightharpoonup> bytes"

text \<open>
  What the handler uses and this file does not define: the \<^verbatim>\<open>Environment\<close> flag, bcrypt,
  \<^verbatim>\<open>PlayerLoading.verify\<close> (applied to the packet of the decoded bytes), \<^verbatim>\<open>toDbDate\<close>,
  the base64 codec of \<^verbatim>\<open>Buffer\<close>, \<^verbatim>\<open>String.prototype.toLowerCase\<close> and the file system.
  They are parameters of the model. \<open>bcrypt_hashSync\<close> stands for one run of the salted hash.
  For the file system:
  \<^item> \<open>mkdir_rejects d\<close>: the directory \<open>d\<close> does not exist and creating it rejects
    (lines 129-131);
  \<^item> \<open>writeFile_rejects p raw\<close>: writing \<open>raw\<close> at the path \<open>p\<close> rejects (line 133);
  \<^item> \<open>same_file p q\<close>: the path string \<open>q\<close> names the file that \<open>p\<close> names.
\<close>

record env =
  WEBSITE_REGISTRATION :: bool
  bcrypt_hashSync :: "string \<Rightarrow> nat \<Rightarrow> string"
  bcrypt_compare :: "string \<Rightarrow> string \<Rightarrow> bool"
  PlayerLoading_verify :: "bytes \<Rightarrow> bool"
  toDbDate :: "int \<Rightarrow> int"
  from_base64 :: "string \<Rightarrow> bytes"
  to_base64 :: "bytes \<Rightarrow> string"
  toLowerCase :: "string \<Rightarrow> string"
  mkdir_rejects :: "string \<Rightarrow> bool"
  writeFile_rejects :: "string \<Rightarrow> bytes \<Rightarrow> bool"
  same_file :: "string \<Rightarrow> string \<Rightarrow> bool"

text \<open>
  The two readings of the clock in the login branch: \<^verbatim>\<open>new Date()\<close> of the ban check
  (line 63) and \<^verbatim>\<open>new Date()\<close> of the ownership update (line 100).
\<close>

record clock =
  ban_check_date :: int
  claim_date :: int

text \<open>
  The decoded message, one constructor for each \<^verbatim>\<open>type\<close> the handler knows, with the fields
  that branch destructures; \<open>Other\<close> is any other \<^verbatim>\<open>type\<close>.
\<close>

datatype msg =
    World_startup int
      \<comment> \<open>nodeId\<close>
  | Player_login int string string int string string int int string
      \<comment> \<open>replyTo username password uid socket remoteAddress nodeId nodeTime profile\<close>
  | Player_logout int string string string
      \<comment> \<open>replyTo username save profile\<close>
  | Player_autosave string string string
      \<comment> \<open>username save profile\<close>
  | Player_force_logout string
      \<comment> \<open>username\<close>
  | Player_ban string int
      \<comment> \<open>username until\<close>
  | Player_mute string int
      \<comment> \<open>username until\<close>
  | Other string

datatype json = JNum int | JStr string | JNull

type_synonym reply = "(string \<times> json) list"

definition response :: "reply \<Rightarrow> json option" where
  "response r = map_of r ''response''"

definition json_date :: "int option \<Rightarrow> json" where
  "json_date d = (case d of None \<Rightarrow> JNull | Some t \<Rightarrow> JNum t)"

subsection \<open>Paths and files\<close>

text \<open>The template string of lines 103, 114, 133 and 156.\<close>

definition savePath :: "string \<Rightarrow> string \<Rightarrow> string" where
  "savePath prof user = ''data/players/'' @ prof @ ''/'' @ user @ ''.sav''"

text \<open>The directory of lines 129-130 and 152-153.\<close>

definition profileDir :: "string \<Rightarrow> string" where
  "profileDir prof = ''data/players/'' @ prof"

text \<open>
  The effect of a \<^verbatim>\<open>writeFile\<close> that does not reject: the path and every path string that
  names the same file then hold the bytes written.
\<close>

definition writeFile :: "env \<Rightarrow> string \<Rightarrow> bytes \<Rightarrow> (string \<rightharpoonup> bytes) \<Rightarrow> (string \<rightharpoonup> bytes)" where
  "writeFile e p raw fs = (\<lambda>q. if q = p \<or> same_file e p q then Some raw else fs q)"

text \<open>The exceptions of the model: the rejected call, with its path.\<close>

datatype error = Mkdir_rejected string | WriteFile_rejected string

subsection \<open>Database operations\<close>

text \<open>\<^verbatim>\<open>db.updateTable('account').set(s).where(w)\<close>: every row that satisfies \<open>w\<close> is set.\<close>

definition updateTable :: "(account \<Rightarrow> bool) \<Rightarrow> (account \<Rightarrow> account) \<Rightarrow> account list \<Rightarrow> account list" where
  "updateTable w s rows = map (\<lambda>r. if w r then s r else r) rows"

text \<open>\<^verbatim>\<open>db.selectFrom('account').where('username', '=', u).selectAll().executeTakeFirst()\<close>\<close>

definition selectAccount :: "string \<Rightarrow> account list \<Rightarrow> account option" where
  "selectAccount u rows = find (\<lambda>a. username a = u) rows"

text \<open>
  Modelled from the spec: the schema of the \<^verbatim>\<open>account\<close> table is not in the source. A row
  inserted with only \<^verbatim>\<open>username\<close> and \<^verbatim>\<open>password\<close> is unowned (\<open>logged_in = 0\<close>, no
  \<open>login_time\<close>), neither banned nor muted, of staff level 0, and has a new id.
\<close>

definition insertAccount :: "string \<Rightarrow> string \<Rightarrow> account list \<Rightarrow> account list" where
  "insertAccount u pw rows =
     rows @ [\<lparr>id_col = fold max (map id_col rows) 0 + 1, username = u, password = pw,
              logged_in = 0, login_time = None, banned_until = None, muted_until = None,
              staffmodlevel = 0\<rparr>]"

subsection \<open>The handler\<close>

text \<open>
  Lines 127-136 and 150-159 (the same block in logout and autosave): decode the save,
  verify it, and only when it verifies make the directory of the profile and write the
  file. \<open>Inl\<close> is the exception of a rejected \<^verbatim>\<open>mkdir\<close> or \<^verbatim>\<open>writeFile\<close>.
\<close>

definition verify_and_write :: "env \<Rightarrow> string \<Rightarrow> string \<Rightarrow> string \<Rightarrow> state \<Rightarrow> error + state" where
  "verify_and_write e prof user sv st =
     (let raw = from_base64 e sv in
      if PlayerLoading_verify e raw then
        if mkdir_rejects e (profileDir prof) then Inl (Mkdir_rejected (profileDir prof))
        else if writeFile_rejects e (savePath prof user) raw
          then Inl (WriteFile_rejected (savePath prof user))
        else Inr (st\<lparr>files := writeFile e (savePath prof user) raw (files st)\<rparr>)
      else Inr st)"

text \<open>Lines 98-121: the ownership update, then the reply with or without the save.\<close>

definition claim_and_reply ::
  "env \<Rightarrow> clock \<Rightarrow> account \<Rightarrow> int \<Rightarrow> string \<Rightarrow> int \<Rightarrow> string \<Rightarrow> state \<Rightarrow> reply list \<times> state" where
  "claim_and_reply e clk acc rt user nodeId prof st =
     (let st' = st\<lparr>accounts :=
                   updateTable (\<lambda>a. id_col a = id_col acc)
                     (\<lambda>a. a\<lparr>logged_in := nodeId, login_time := Some (toDbDate e (claim_date clk))\<rparr>)
                     (accounts st)\<rparr>
      in case files st' (savePath prof user) of
           None \<Rightarrow>
             ([[(''replyTo'', JNum rt), (''response'', JNum 4),
                (''staffmodlevel'', JNum (staffmodlevel acc)),
                (''muted_until'', json_date (muted_until acc))]], st')
         | Some sv \<Rightarrow>
             ([[(''replyTo'', JNum rt), (''response'', JNum 0),
                (''staffmodlevel'', JNum (staffmodlevel acc)),
                (''save'', JStr (to_base64 e sv)),
                (''muted_until'', json_date (muted_until acc))]], st'))"

text \<open>
  Line 63: \<^verbatim>\<open>account.banned_until !== null && new Date(account.banned_until) > new Date()\<close>,
  with the reading of the clock as \<open>now\<close>.
\<close>

definition banned_at :: "int \<Rightarrow> account \<Rightarrow> bool" where
  "banned_at now acc = (case banned_until acc of None \<Rightarrow> False | Some b \<Rightarrow> b > now)"

text \<open>Lines 33-121: the \<^verbatim>\<open>player_login\<close> branch.\<close>

definition player_login ::
  "env \<Rightarrow> clock \<Rightarrow> int \<Rightarrow> string \<Rightarrow> string \<Rightarrow> int \<Rightarrow> string \<Rightarrow> string \<Rightarrow> int \<Rightarrow> int \<Rightarrow> string
     \<Rightarrow> state \<Rightarrow> reply list \<times> state" where
  "player_login e clk rt user pw uid' sock addr nodeId nodeTime prof st =
     (let account = selectAccount user (accounts st) in
      if \<not> WEBSITE_REGISTRATION e \<and> account = None then
        ([[(''replyTo'', JNum rt), (''response'', JNum 4), (''staffmodlevel'', JNum 0)]],
         st\<lparr>accounts := insertAccount user (bcrypt_hashSync e (toLowerCase e pw) 10) (accounts st)\<rparr>)
      else case account of
        None \<Rightarrow> ([[(''replyTo'', JNum rt), (''response'', JNum 1)]], st)
      | Some acc \<Rightarrow>
          if \<not> bcrypt_compare e (toLowerCase e pw) (password acc) then
            ([[(''replyTo'', JNum rt), (''response'', JNum 1)]], st)
          else if banned_at (ban_check_date clk) acc then
            ([[(''replyTo'', JNum rt), (''response'', JNum 5)]], st)
          else
            let st1 = st\<lparr>sessions := sessions st @
                         [\<lparr>uuid = sock, account_id = id_col acc, profile = prof, world = nodeId,
                           timestamp = toDbDate e nodeTime, uid = uid', ip = addr\<rparr>]\<rparr>
            in
              if logged_in acc = nodeId then
                (let (rs, st2) = claim_and_reply e clk acc rt user nodeId prof st1
                 in ([(''replyTo'', JNum rt), (''response'', JNum 2)] # rs, st2))
              else if logged_in acc \<noteq> 0 then
                ([[(''replyTo'', JNum rt), (''response'', JNum 3)]], st1)
              else claim_and_reply e clk acc rt user nodeId prof st1)"

text \<open>
  Lines 24-186: the dispatch on \<^verbatim>\<open>type\<close>. In the logout and autosave branches an exception
  of the write leaves the \<^verbatim>\<open>try\<close>: nothing is sent and the stores are as they were.
\<close>

fun on_message :: "env \<Rightarrow> clock \<Rightarrow> msg \<Rightarrow> state \<Rightarrow> reply list \<times> state" where
  "on_message e clk (World_startup nodeId) st =
     ([], st\<lparr>accounts := updateTable (\<lambda>a. logged_in a = nodeId)
                            (\<lambda>a. a\<lparr>logged_in := 0, login_time := None\<rparr>) (accounts st)\<rparr>)"
| "on_message e clk (Player_login rt user pw uid' sock addr nodeId nodeTime prof) st =
     player_login e clk rt user pw uid' sock addr nodeId nodeTime prof st"
| "on_message e clk (Player_logout rt user sv prof) st =
     (case verify_and_write e prof user sv st of
        Inl err \<Rightarrow> ([], st)
      | Inr st1 \<Rightarrow>
          (let st2 = st1\<lparr>accounts := updateTable (\<lambda>a. username a = user)
                                  (\<lambda>a. a\<lparr>logged_in := 0, login_time := None\<rparr>) (accounts st1)\<rparr>
           in ([[(''replyTo'', JNum rt), (''response'', JNum 0)]], st2)))"
| "on_message e clk (Player_autosave user sv prof) st =
     (case verify_and_write e prof user sv st of
        Inl err \<Rightarrow> ([], st)
      | Inr st1 \<Rightarrow> ([], st1))"
| "on_message e clk (Player_force_logout user) st =
     ([], st\<lparr>accounts := updateTable (\<lambda>a. username a = user)
                            (\<lambda>a. a\<lparr>logged_in := 0, login_time := None\<rparr>) (accounts st)\<rparr>)"
| "on_message e clk (Player_ban user until) st =
     ([], st\<lparr>accounts := updateTable (\<lambda>a. username a = user)
                            (\<lambda>a. a\<lparr>banned_until := Some (toDbDate e until)\<rparr>) (accounts st)\<rparr>)"
| "on_message e clk (Player_mute user until) st =
     ([], st\<lparr>accounts := updateTable (\<lambda>a. username a = user)
                            (\<lambda>a. a\<lparr>muted_until := Some (toDbDate e until)\<rparr>) (accounts st)\<rparr>)"
| "on_message e clk (Other ty) st = ([], st)"

subsection \<open>A concrete environment and store\<close>

text \<open>
  A small instance of the parameters, for evaluating the handler: the hash of \<open>p\<close> is \<open>#p\<close>,
  a save verifies when it starts with the bytes 0x20 0x04, the codec maps a character
  to its byte, and lowering a string lowers its letters A-Z. In its file system no two
  path strings name the same file and the directory \<^verbatim>\<open>data/players/main/x\<close> does not exist,
  so that writing \<^verbatim>\<open>data/players/main/x/y.sav\<close> rejects; every other write succeeds.
\<close>

definition ascii_lower_char :: "char \<Rightarrow> char" where
  "ascii_lower_char c =
     (let n = (of_char c :: nat) in if 65 \<le> n \<and> n \<le> 90 then char_of (n + 32) else c)"

definition ascii_lower :: "string \<Rightarrow> string" where
  "ascii_lower s = map ascii_lower_char s"

definition env0 :: env where
  "env0 = \<lparr>WEBSITE_REGISTRATION = True,
           bcrypt_hashSync = (\<lambda>p c. CHR ''#'' # p),
           bcrypt_compare = (\<lambda>p h. h = CHR ''#'' # p),
           PlayerLoading_verify = (\<lambda>b. take 2 b = [0x20, 0x04]),
           toDbDate = (\<lambda>t. t),
           from_base64 = map of_char,
           to_base64 = map (\<lambda>w. char_of (unat w)),
           toLowerCase = ascii_lower,
           mkdir_rejects = (\<lambda>d. False),
           writeFile_rejects = (\<lambda>p raw. p = ''data/players/main/x/y.sav''),
           same_file = (\<lambda>p q. False)\<rparr>"

definition clk0 :: clock where
  "clk0 = \<lparr>ban_check_date = 1000, claim_date = 1001\<rparr>"

definition bob :: account where
  "bob = \<lparr>id_col = 1, username = ''bob'', password = ''#pw'', logged_in = 7,
          login_time = Some 500, banned_until = None, muted_until = None, staffmodlevel = 0\<rparr>"

definition carol :: account where
  "carol = \<lparr>id_col = 2, username = ''carol'', password = ''#pw'', logged_in = 0,
            login_time = None, banned_until = None, muted_until = None, staffmodlevel = 0\<rparr>"

definition dave :: account where
  "dave = \<lparr>id_col = 3, username = ''dave'', password = ''#pw'', logged_in = 0,
           login_time = None, banned_until = Some 2000, muted_until = None, staffmodlevel = 0\<rparr>"

text \<open>An account whose username has a \<^verbatim>\<open>/\<close>, owned by node 7.\<close>

definition xy :: account where
  "xy = \<lparr>id_col = 4, username = ''x/y'', password = ''#pw'', logged_in = 7,
         login_time = Some 500, banned_until = None, muted_until = None, staffmodlevel = 0\<rparr>"

definition save0 :: string where
  "save0 = [CHR 0x20, CHR 0x04, CHR ''s'']"

definition st0 :: state where
  "st0 = \<lparr>accounts = [bob, carol, dave], sessions = [], files = Map.empty\<rparr>"

definition st1 :: state where
  "st1 = \<lparr>accounts = [xy], sessions = [], files = Map.empty\<rparr>"

text \<open>The same store with the account unowned.\<close>

definition st2 :: state where
  "st2 = \<lparr>accounts = [xy\<lparr>logged_in := 0, login_time := None\<rparr>], sessions = [],
          files = Map.empty\<rparr>"

text \<open>The environment \<open>env0\<close> with open registration (\<^verbatim>\<open>WEBSITE_REGISTRATION\<close> unset).\<close>

definition env1 :: env where
  "env1 = env0\<lparr>WEBSITE_REGISTRATION := False\<rparr>"

section \<open>Properties\<close>

lemmas eval_defs = env0_def clk0_def st0_def bob_def carol_def dave_def player_login_def
  claim_and_reply_def selectAccount_def updateTable_def banned_at_def ascii_lower_def
  ascii_lower_char_def savePath_def response_def json_date_def verify_and_write_def
  profileDir_def writeFile_def

subsection \<open>Auxiliary facts\<close>

lemma ascii_lower_char_idem: "ascii_lower_char (ascii_lower_char c) = ascii_lower_char c"
  by (simp add: ascii_lower_char_def Let_def)

lemma ascii_lower_idem: "ascii_lower (ascii_lower s) = ascii_lower s"
  by (simp add: ascii_lower_def ascii_lower_char_idem)

lemma find_map_same:
  assumes "\<And>x. P (f x) = P x"
  shows "find P (map f xs) = map_option f (find P xs)"
  using assms by (induction xs) auto

lemma selectAccount_updateTable:
  assumes "\<And>a. username (s a) = username a"
  shows "selectAccount u (updateTable w s rows)
         = map_option (\<lambda>r. if w r then s r else r) (selectAccount u rows)"
  unfolding selectAccount_def updateTable_def
  by (rule find_map_same) (simp add: assms)

text \<open>
  The three outcomes of the block that verifies and writes: skipped, written, rejected.
\<close>

lemma verify_and_write_skipped:
  assumes "\<not> PlayerLoading_verify e (from_base64 e sv)"
  shows "verify_and_write e prof user sv st = Inr st"
  using assms by (simp add: verify_and_write_def)

lemma verify_and_write_written:
  assumes "PlayerLoading_verify e (from_base64 e sv)"
    and "\<not> mkdir_rejects e (profileDir prof)"
    and "\<not> writeFile_rejects e (savePath prof user) (from_base64 e sv)"
  shows "verify_and_write e prof user sv st
         = Inr (st\<lparr>files := writeFile e (savePath prof user) (from_base64 e sv) (files st)\<rparr>)"
  using assms by (simp add: verify_and_write_def)

lemma verify_and_write_rejected:
  assumes "PlayerLoading_verify e (from_base64 e sv)"
    and "mkdir_rejects e (profileDir prof)
         \<or> writeFile_rejects e (savePath prof user) (from_base64 e sv)"
  shows "\<exists>err. verify_and_write e prof user sv st = Inl err"
  using assms by (auto simp add: verify_and_write_def Let_def)

lemma verify_and_write_Inr:
  assumes "verify_and_write e prof user sv st = Inr st'"
  shows "accounts st' = accounts st" and "sessions st' = sessions st"
    and "files st' = files st
         \<or> files st' = writeFile e (savePath prof user) (from_base64 e sv) (files st)"
  using assms by (auto simp add: verify_and_write_def Let_def split: if_splits)

lemma writeFile_same_path: "writeFile e p raw fs p = Some raw"
  by (simp add: writeFile_def)

text \<open>The files after a logout or an autosave whose save is skipped or written.\<close>

lemma files_after_write:
  assumes "m = Player_logout rt user sv prof \<or> m = Player_autosave user sv prof"
    and "verify_and_write e prof user sv st = Inr st'"
  shows "files (snd (on_message e clk m st)) = files st'"
  using assms by (auto simp add: Let_def)

text \<open>Two evaluations that fix the path template and the strict comparison of line 63.\<close>

lemma savePath_bob: "savePath ''main'' ''bob'' = ''data/players/main/bob.sav''"
  by (simp add: savePath_def)

lemma banned_at_strict: "banned_at 1999 dave \<and> \<not> banned_at 2000 dave"
  by (simp add: banned_at_def dave_def)

text \<open>
  The login branch once the account is found, the password verifies and the account is not
  banned: the session row is inserted and the three-way decision on \<open>logged_in\<close> follows.
\<close>

lemma player_login_verified:
  assumes "selectAccount user (accounts st) = Some acc"
    and "bcrypt_compare e (toLowerCase e pw) (password acc)"
    and "\<not> banned_at (ban_check_date clk) acc"
  shows "player_login e clk rt user pw uid' sock addr nodeId nodeTime prof st =
     (let st1 = st\<lparr>sessions := sessions st @
                         [\<lparr>uuid = sock, account_id = id_col acc, profile = prof, world = nodeId,
                           timestamp = toDbDate e nodeTime, uid = uid', ip = addr\<rparr>]\<rparr>
      in if logged_in acc = nodeId then
                (let (rs, st2) = claim_and_reply e clk acc rt user nodeId prof st1
                 in ([(''replyTo'', JNum rt), (''response'', JNum 2)] # rs, st2))
              else if logged_in acc \<noteq> 0 then
                ([[(''replyTo'', JNum rt), (''response'', JNum 3)]], st1)
              else claim_and_reply e clk acc rt user nodeId prof st1)"
  using assms by (simp add: player_login_def)

lemma claim_and_reply_with_save:
  assumes "files st (savePath prof user) = Some raw"
  shows "fst (claim_and_reply e clk acc rt user nodeId prof st)
     = [[(''replyTo'', JNum rt), (''response'', JNum 0),
         (''staffmodlevel'', JNum (staffmodlevel acc)),
         (''save'', JStr (to_base64 e raw)),
         (''muted_until'', json_date (muted_until acc))]]"
  using assms by (simp add: claim_and_reply_def Let_def)

text \<open>
  A login reply with code 0 carries the encoding of the file stored at the save path.
\<close>

lemma player_login_code0:
  assumes "r \<in> set (fst (player_login e clk rt user pw uid' sock addr nodeId nodeTime prof st))"
    and "response r = Some (JNum 0)"
  shows "\<exists>sv. files st (savePath prof user) = Some sv \<and> map_of r ''save'' = Some (JStr (to_base64 e sv))"
  using assms
  by (auto simp add: player_login_def claim_and_reply_def response_def Let_def
        split: option.splits if_splits)

subsection \<open>Login\<close>

text \<open>
  The reconnect branch on any input: after the reply with code 2 the handler goes on, sends
  a second reply (code 4 or 0) and writes \<open>login_time\<close>.
\<close>

lemma player_login_reconnect:
  assumes "selectAccount user (accounts st) = Some acc"
    and "bcrypt_compare e (toLowerCase e pw) (password acc)"
    and "\<not> banned_at (ban_check_date clk) acc"
    and "logged_in acc = nodeId"
  shows "map response
           (fst (on_message e clk (Player_login rt user pw uid' sock addr nodeId nodeTime prof) st))
         = [Some (JNum 2), Some (JNum (if files st (savePath prof user) = None then 4 else 0))]"
    and "selectAccount user
           (accounts (snd (on_message e clk (Player_login rt user pw uid' sock addr nodeId nodeTime prof) st)))
         = Some (acc\<lparr>logged_in := nodeId, login_time := Some (toDbDate e (claim_date clk))\<rparr>)"
  using assms
  by (auto simp add: player_login_verified claim_and_reply_def response_def Let_def
        selectAccount_updateTable split: option.splits prod.splits)

text \<open>
  C1 (reconnect to the same node). The branch of line 82 sends the reply with code 2 and,
  unlike the branch of line 89, does not return: the handler goes on to the update of
  line 98 and to a second reply (\<open>player_login_reconnect\<close>). Evaluated on the account
  \<open>bob\<close>, owned by node 7, with a login from node 7 and the right password: two replies
  are sent, with the codes 2 and 4, and \<open>login_time\<close> changes from 500 to the date of the
  update, 1001.
\<close>

theorem C1_reconnect_falls_through:
  "selectAccount ''bob'' (accounts st0) = Some bob
   \<and> bcrypt_compare env0 (toLowerCase env0 ''pw'') (password bob)
   \<and> \<not> banned_at (ban_check_date clk0) bob
   \<and> logged_in bob = 7 \<and> login_time bob = Some 500
   \<and> map response
        (fst (on_message env0 clk0 (Player_login 11 ''bob'' ''pw'' 0 ''s'' ''ip'' 7 900 ''main'') st0))
      = [Some (JNum 2), Some (JNum 4)]
   \<and> map login_time
        (accounts (snd (on_message env0 clk0 (Player_login 11 ''bob'' ''pw'' 0 ''s'' ''ip'' 7 900 ''main'') st0)))
      = [Some 1001, None, None]"
  by (simp add: eval_defs)




text \<open>
  C3 (banned account), as amended: when the account is found and \<open>banned_until\<close> is set and
  later than the date of the check, the handler sends a single reply, with code 5 when the
  password verifies and with code 1 when it does not, and changes nothing, so no session row
  is inserted in either case; there is no condition on \<open>logged_in\<close>.
\<close>

theorem C3_banned:
  assumes "selectAccount user (accounts st) = Some acc"
    and "banned_at (ban_check_date clk) acc"
  shows "on_message e clk (Player_login rt user pw uid' sock addr nodeId nodeTime prof) st
           = ([[(''replyTo'', JNum rt),
                (''response'',
                   JNum (if bcrypt_compare e (toLowerCase e pw) (password acc) then 5 else 1))]],
              st)"
  using assms by (simp add: player_login_def)

text \<open>
  At \<open>dave\<close>, banned until 2000, at the date 1000: with the right password and with a wrong
  one.
\<close>

theorem C3_banned_witness:
  "banned_until dave = Some 2000 \<and> 2000 > ban_check_date clk0
   \<and> on_message env0 clk0 (Player_login 11 ''dave'' ''pw'' 0 ''s'' ''ip'' 9 900 ''main'') st0
       = ([[(''replyTo'', JNum 11), (''response'', JNum 5)]], st0)
   \<and> on_message env0 clk0 (Player_login 11 ''dave'' ''bad'' 0 ''s'' ''ip'' 9 900 ''main'') st0
       = ([[(''replyTo'', JNum 11), (''response'', JNum 1)]], st0)
   \<and> sessions st0 = []"
proof -
  have sel: "selectAccount ''dave'' (accounts st0) = Some dave"
    by (simp add: eval_defs)
  have pw: "bcrypt_compare env0 (toLowerCase env0 ''pw'') (password dave)"
    "\<not> bcrypt_compare env0 (toLowerCase env0 ''bad'') (password dave)"
    by (simp_all add: eval_defs)
  have b: "banned_at (ban_check_date clk0) dave"
    by (simp add: eval_defs)
  note t = C3_banned [OF sel b, of env0 11 _ 0 "''s''" "''ip''" 9 900 "''main''"]
  from t [of "''pw''"] t [of "''bad''"] pw
  show ?thesis by (simp add: dave_def clk0_def st0_def)
qed

text \<open>
  The password is checked (line 54) before the ban (line 63): a login on the banned \<open>dave\<close>
  with a wrong password is answered with code 1, not 5.
\<close>

theorem C3_banned_wrong_password:
  "selectAccount ''dave'' (accounts st0) = Some dave
   \<and> banned_until dave = Some 2000 \<and> 2000 > ban_check_date clk0
   \<and> on_message env0 clk0 (Player_login 11 ''dave'' ''bad'' 0 ''s'' ''ip'' 9 900 ''main'') st0
       = ([[(''replyTo'', JNum 11), (''response'', JNum 1)]], st0)"
  by (simp add: eval_defs)

text \<open>
  C6 (account owned by another node): when the account is found, the password verifies,
  the account is not banned and \<open>logged_in\<close> is neither 0 nor the requesting node id, the
  handler sends the single reply with code 3 and leaves the account table (so \<open>logged_in\<close>)
  and the files as they were.
\<close>

theorem C6_owned_elsewhere:
  assumes "selectAccount user (accounts st) = Some acc"
    and "bcrypt_compare e (toLowerCase e pw) (password acc)"
    and "\<not> banned_at (ban_check_date clk) acc"
    and "logged_in acc \<noteq> 0" and "logged_in acc \<noteq> nodeId"
  shows "fst (on_message e clk (Player_login rt user pw uid' sock addr nodeId nodeTime prof) st)
           = [[(''replyTo'', JNum rt), (''response'', JNum 3)]]
       \<and> accounts (snd (on_message e clk (Player_login rt user pw uid' sock addr nodeId nodeTime prof) st))
           = accounts st
       \<and> files (snd (on_message e clk (Player_login rt user pw uid' sock addr nodeId nodeTime prof) st))
           = files st"
  using assms by (simp add: player_login_verified)

text \<open>
  At \<open>bob\<close>, owned by node 7, with a login from node 9.
\<close>

theorem C6_owned_elsewhere_witness:
  "selectAccount ''bob'' (accounts st0) = Some bob
   \<and> logged_in bob = 7
   \<and> fst (on_message env0 clk0 (Player_login 11 ''bob'' ''pw'' 0 ''s'' ''ip'' 9 900 ''main'') st0)
       = [[(''replyTo'', JNum 11), (''response'', JNum 3)]]
   \<and> accounts (snd (on_message env0 clk0 (Player_login 11 ''bob'' ''pw'' 0 ''s'' ''ip'' 9 900 ''main'') st0))
       = [bob, carol, dave]"
proof -
  have sel: "selectAccount ''bob'' (accounts st0) = Some bob"
    by (simp add: eval_defs)
  have pw: "bcrypt_compare env0 (toLowerCase env0 ''pw'') (password bob)"
    by (simp add: eval_defs)
  have nb: "\<not> banned_at (ban_check_date clk0) bob"
    by (simp add: eval_defs)
  have own: "logged_in bob \<noteq> 0" "logged_in bob \<noteq> 9"
    by (simp_all add: bob_def)
  from C6_owned_elsewhere [OF sel pw nb own, of 11 0 "''s''" "''ip''" 900 "''main''"] sel
  show ?thesis by (simp add: st0_def bob_def)
qed

text \<open>
  After an open registration with the password \<open>SeCret\<close> the stored hash is the hash of
  \<open>secret\<close>, and a login with \<open>sEcReT\<close> is accepted (code 4, no save yet).
\<close>

lemma registration_lowers_password:
  "map password
     (accounts (snd (on_message env1 clk0
        (Player_login 11 ''alice'' ''SeCret'' 0 ''s'' ''ip'' 9 900 ''main'') st0)))
     = [''#pw'', ''#pw'', ''#pw'', ''#secret'']
   \<and> map response
        (fst (on_message env1 clk0 (Player_login 12 ''alice'' ''sEcReT'' 0 ''s'' ''ip'' 9 900 ''main'')
           (snd (on_message env1 clk0
              (Player_login 11 ''alice'' ''SeCret'' 0 ''s'' ''ip'' 9 900 ''main'') st0))))
     = [Some (JNum 4)]"
  by (simp add: env1_def insertAccount_def eval_defs char_of_def bit_Suc_0_iff)

text \<open>
  C9 (passwords are case-insensitive). The password enters the handler only through
  \<open>toLowerCase\<close>, before the hash of the registration (line 43) and before the comparison
  (line 54). So two logins whose passwords have the same lowering have the same replies and
  the same effect on the stores; in particular a login with the password \<open>p\<close> and a login with
  its lowering, lowering a lowered string being without effect.
\<close>

theorem C9_password_case_insensitive:
  "(toLowerCase e p = toLowerCase e q \<longrightarrow>
      on_message e clk (Player_login rt user p uid' sock addr nodeId nodeTime prof) st
      = on_message e clk (Player_login rt user q uid' sock addr nodeId nodeTime prof) st)
   \<and> (toLowerCase e (toLowerCase e p) = toLowerCase e p \<longrightarrow>
      on_message e clk (Player_login rt user (toLowerCase e p) uid' sock addr nodeId nodeTime prof) st
      = on_message e clk (Player_login rt user p uid' sock addr nodeId nodeTime prof) st)"
proof (intro conjI impI)
  assume same: "toLowerCase e p = toLowerCase e q"
  show "on_message e clk (Player_login rt user p uid' sock addr nodeId nodeTime prof) st
      = on_message e clk (Player_login rt user q uid' sock addr nodeId nodeTime prof) st"
    unfolding on_message.simps player_login_def same ..
next
  assume idem: "toLowerCase e (toLowerCase e p) = toLowerCase e p"
  show "on_message e clk (Player_login rt user (toLowerCase e p) uid' sock addr nodeId nodeTime prof) st
      = on_message e clk (Player_login rt user p uid' sock addr nodeId nodeTime prof) st"
    unfolding on_message.simps player_login_def idem ..
qed

text \<open>
  At \<open>carol\<close>, whose stored hash is the hash of \<open>pw\<close>: the logins with \<open>Pw\<close> and with \<open>pw\<close>
  are both accepted, with the same reply and the same stores.
\<close>

theorem C9_password_case_insensitive_witness:
  "toLowerCase env0 ''Pw'' = toLowerCase env0 ''pw'' \<and> ''Pw'' \<noteq> ''pw''
   \<and> toLowerCase env0 (toLowerCase env0 ''Pw'') = toLowerCase env0 ''Pw''
   \<and> on_message env0 clk0 (Player_login 11 ''carol'' ''Pw'' 0 ''s'' ''ip'' 9 900 ''main'') st0
       = on_message env0 clk0 (Player_login 11 ''carol'' ''pw'' 0 ''s'' ''ip'' 9 900 ''main'') st0
   \<and> on_message env0 clk0 (Player_login 11 ''carol'' (toLowerCase env0 ''Pw'') 0 ''s'' ''ip'' 9 900 ''main'') st0
       = on_message env0 clk0 (Player_login 11 ''carol'' ''Pw'' 0 ''s'' ''ip'' 9 900 ''main'') st0
   \<and> fst (on_message env0 clk0 (Player_login 11 ''carol'' ''Pw'' 0 ''s'' ''ip'' 9 900 ''main'') st0)
       = [[(''replyTo'', JNum 11), (''response'', JNum 4), (''staffmodlevel'', JNum 0),
           (''muted_until'', JNull)]]"
proof -
  have l: "toLowerCase env0 ''Pw'' = toLowerCase env0 ''pw''"
    by (simp add: env0_def ascii_lower_def ascii_lower_char_def char_of_def bit_Suc_0_iff)
  have i: "toLowerCase env0 (toLowerCase env0 ''Pw'') = toLowerCase env0 ''Pw''"
    by (simp add: env0_def ascii_lower_idem)
  have d: "''Pw'' \<noteq> ''pw''"
    by simp
  have r: "fst (on_message env0 clk0 (Player_login 11 ''carol'' ''pw'' 0 ''s'' ''ip'' 9 900 ''main'') st0)
       = [[(''replyTo'', JNum 11), (''response'', JNum 4), (''staffmodlevel'', JNum 0),
           (''muted_until'', JNull)]]"
    by (simp add: eval_defs)
  note t = C9_password_case_insensitive
    [of env0 "''Pw''" "''pw''" clk0 11 "''carol''" 0 "''s''" "''ip''" 9 900 "''main''" st0]
  from t l i have
    a: "on_message env0 clk0 (Player_login 11 ''carol'' ''Pw'' 0 ''s'' ''ip'' 9 900 ''main'') st0
       = on_message env0 clk0 (Player_login 11 ''carol'' ''pw'' 0 ''s'' ''ip'' 9 900 ''main'') st0"
    and b: "on_message env0 clk0 (Player_login 11 ''carol'' (toLowerCase env0 ''Pw'') 0 ''s'' ''ip'' 9 900 ''main'') st0
       = on_message env0 clk0 (Player_login 11 ''carol'' ''Pw'' 0 ''s'' ''ip'' 9 900 ''main'') st0"
    by blast+
  from r a have "fst (on_message env0 clk0 (Player_login 11 ''carol'' ''Pw'' 0 ''s'' ''ip'' 9 900 ''main'') st0)
       = [[(''replyTo'', JNum 11), (''response'', JNum 4), (''staffmodlevel'', JNum 0),
           (''muted_until'', JNull)]]"
    by (simp only: a)
  with l d i a b show ?thesis by blast
qed

text \<open>
  C10 (invalid credentials change nothing): whenever a login sends a reply with code 1, that
  reply is the only one and the stores are unchanged (no account row created or updated, no
  session row, no file); and this happens only when no account has the username while
  \<open>WEBSITE_REGISTRATION\<close> is set, or when the password does not verify.
\<close>

theorem C10_invalid_credentials:
  assumes "r \<in> set (fst (on_message e clk (Player_login rt user pw uid' sock addr nodeId nodeTime prof) st))"
    and "response r = Some (JNum 1)"
  shows "on_message e clk (Player_login rt user pw uid' sock addr nodeId nodeTime prof) st
           = ([[(''replyTo'', JNum rt), (''response'', JNum 1)]], st)
       \<and> (case selectAccount user (accounts st) of
             None \<Rightarrow> WEBSITE_REGISTRATION e
           | Some acc \<Rightarrow> \<not> bcrypt_compare e (toLowerCase e pw) (password acc))"
  using assms
  by (auto simp add: player_login_def claim_and_reply_def response_def Let_def
        split: option.splits if_splits)

text \<open>
  At \<open>bob\<close> with a wrong password.
\<close>

theorem C10_invalid_credentials_witness:
  "[(''replyTo'', JNum 11), (''response'', JNum 1)]
     \<in> set (fst (on_message env0 clk0 (Player_login 11 ''bob'' ''bad'' 0 ''s'' ''ip'' 7 900 ''main'') st0))
   \<and> response [(''replyTo'', JNum 11), (''response'', JNum 1)] = Some (JNum 1)
   \<and> snd (on_message env0 clk0 (Player_login 11 ''bob'' ''bad'' 0 ''s'' ''ip'' 7 900 ''main'') st0) = st0"
proof -
  have r: "[(''replyTo'', JNum 11), (''response'', JNum 1)]
     \<in> set (fst (on_message env0 clk0 (Player_login 11 ''bob'' ''bad'' 0 ''s'' ''ip'' 7 900 ''main'') st0))"
    by (simp add: eval_defs)
  have c: "response [(''replyTo'', JNum 11), (''response'', JNum 1)] = Some (JNum 1)"
    by (simp add: response_def)
  from C10_invalid_credentials [OF r c] r c show ?thesis by simp
qed

subsection \<open>Logout, autosave and world start-up\<close>

text \<open>
  C4 (logout releases), as amended: for every logout whose save does not verify, or whose
  save verifies and is written without a rejection of \<^verbatim>\<open>mkdir\<close> or \<^verbatim>\<open>writeFile\<close>, the single
  reply has code 0 and every account row with the username gets \<open>logged_in = 0\<close> and
  \<open>login_time = null\<close>, the other rows being unchanged. When the save verifies and
  \<^verbatim>\<open>mkdir\<close> or \<^verbatim>\<open>writeFile\<close> rejects, the handler ends in the \<^verbatim>\<open>catch\<close>: no reply, and the
  stores as they were.
\<close>

theorem C4_logout_releases:
  "((\<not> PlayerLoading_verify e (from_base64 e sv)
      \<or> (\<not> mkdir_rejects e (profileDir prof)
          \<and> \<not> writeFile_rejects e (savePath prof user) (from_base64 e sv)))
     \<longrightarrow>
       fst (on_message e clk (Player_logout rt user sv prof) st)
         = [[(''replyTo'', JNum rt), (''response'', JNum 0)]]
       \<and> accounts (snd (on_message e clk (Player_logout rt user sv prof) st))
         = map (\<lambda>a. if username a = user then a\<lparr>logged_in := 0, login_time := None\<rparr> else a)
             (accounts st)
       \<and> (\<forall>a \<in> set (accounts (snd (on_message e clk (Player_logout rt user sv prof) st))).
             username a = user \<longrightarrow> logged_in a = 0 \<and> login_time a = None))
   \<and> (PlayerLoading_verify e (from_base64 e sv)
        \<and> (mkdir_rejects e (profileDir prof)
            \<or> writeFile_rejects e (savePath prof user) (from_base64 e sv))
     \<longrightarrow> on_message e clk (Player_logout rt user sv prof) st = ([], st))"
proof -
  let ?R = "on_message e clk (Player_logout rt user sv prof) st"
  let ?raw = "from_base64 e sv"
  let ?rel = "map (\<lambda>a. if username a = user then a\<lparr>logged_in := 0, login_time := None\<rparr> else a)
                (accounts st)"
  have fin: "fst ?R = [[(''replyTo'', JNum rt), (''response'', JNum 0)]] \<and> accounts (snd ?R) = ?rel"
    if "verify_and_write e prof user sv st = Inr st'" for st'
    using that verify_and_write_Inr(1) [OF that]
    by (simp add: Let_def updateTable_def)
  have ok: "fst ?R = [[(''replyTo'', JNum rt), (''response'', JNum 0)]] \<and> accounts (snd ?R) = ?rel"
    if "\<not> PlayerLoading_verify e ?raw
        \<or> (\<not> mkdir_rejects e (profileDir prof)
            \<and> \<not> writeFile_rejects e (savePath prof user) ?raw)"
  proof (cases "PlayerLoading_verify e ?raw")
    case False
    from fin [OF verify_and_write_skipped [OF False]] show ?thesis .
  next
    case True
    with that have "\<not> mkdir_rejects e (profileDir prof)"
      and "\<not> writeFile_rejects e (savePath prof user) ?raw"
      by blast+
    from fin [OF verify_and_write_written [OF True this]] show ?thesis .
  qed
  have released: "logged_in a = 0 \<and> login_time a = None"
    if "a \<in> set ?rel" and "username a = user" for a
  proof -
    from that(1) obtain b where "b \<in> set (accounts st)"
      and a: "a = (if username b = user then b\<lparr>logged_in := 0, login_time := None\<rparr> else b)"
      by auto
    show ?thesis
    proof (cases "username b = user")
      case True
      with a show ?thesis by simp
    next
      case False
      with a that(2) show ?thesis by simp
    qed
  qed
  have rejected: "?R = ([], st)"
    if "PlayerLoading_verify e ?raw"
      and "mkdir_rejects e (profileDir prof) \<or> writeFile_rejects e (savePath prof user) ?raw"
  proof -
    from verify_and_write_rejected [OF that] obtain err where
      "verify_and_write e prof user sv st = Inl err" by blast
    then show ?thesis by simp
  qed
  show ?thesis
  proof (intro conjI impI)
    assume h: "\<not> PlayerLoading_verify e ?raw
        \<or> (\<not> mkdir_rejects e (profileDir prof)
            \<and> \<not> writeFile_rejects e (savePath prof user) ?raw)"
    from ok [OF h] show "fst ?R = [[(''replyTo'', JNum rt), (''response'', JNum 0)]]"
      and acs: "accounts (snd ?R) = ?rel"
      by blast+
    show "\<forall>a \<in> set (accounts (snd ?R)). username a = user \<longrightarrow> logged_in a = 0 \<and> login_time a = None"
      unfolding acs using released by blast
  next
    assume "PlayerLoading_verify e ?raw
        \<and> (mkdir_rejects e (profileDir prof)
            \<or> writeFile_rejects e (savePath prof user) ?raw)"
    then show "?R = ([], st)"
      using rejected by blast
  qed
qed

text \<open>
  At \<open>bob\<close>, owned by node 7: with a save that does not verify, and with a save that
  verifies and is written.
\<close>

theorem C4_logout_releases_witness:
  "\<not> PlayerLoading_verify env0 (from_base64 env0 ''xx'')
   \<and> bob \<in> set (accounts st0) \<and> logged_in bob = 7
   \<and> fst (on_message env0 clk0 (Player_logout 12 ''bob'' ''xx'' ''main'') st0)
       = [[(''replyTo'', JNum 12), (''response'', JNum 0)]]
   \<and> accounts (snd (on_message env0 clk0 (Player_logout 12 ''bob'' ''xx'' ''main'') st0))
       = [bob\<lparr>logged_in := 0, login_time := None\<rparr>, carol, dave]
   \<and> PlayerLoading_verify env0 (from_base64 env0 save0)
   \<and> fst (on_message env0 clk0 (Player_logout 12 ''bob'' save0 ''main'') st0)
       = [[(''replyTo'', JNum 12), (''response'', JNum 0)]]
   \<and> accounts (snd (on_message env0 clk0 (Player_logout 12 ''bob'' save0 ''main'') st0))
       = [bob\<lparr>logged_in := 0, login_time := None\<rparr>, carol, dave]"
proof -
  have v: "\<not> PlayerLoading_verify env0 (from_base64 env0 ''xx'')"
    "PlayerLoading_verify env0 (from_base64 env0 save0)"
    by (simp_all add: env0_def save0_def)
  have w: "\<not> mkdir_rejects env0 (profileDir ''main'')"
    "\<not> writeFile_rejects env0 (savePath ''main'' ''bob'') (from_base64 env0 save0)"
    by (simp_all add: env0_def savePath_def)
  have b: "bob \<in> set (accounts st0)" "logged_in bob = 7"
    by (simp_all add: st0_def bob_def)
  have m: "map (\<lambda>a. if username a = ''bob'' then a\<lparr>logged_in := 0, login_time := None\<rparr> else a)
             (accounts st0) = [bob\<lparr>logged_in := 0, login_time := None\<rparr>, carol, dave]"
    by (simp add: st0_def bob_def carol_def dave_def)
  note t = C4_logout_releases [of env0 _ "''main''" "''bob''" clk0 12 st0, unfolded m]
  from t [of "''xx''"] t [of save0] v w b show ?thesis by blast
qed

text \<open>
  Without the condition on the write the claim fails. In the file system of \<open>env0\<close> the
  directory \<^verbatim>\<open>data/players/main/x\<close> is missing (only the directory of the profile is made),
  so for the username \<open>x/y\<close> and a save that verifies \<^verbatim>\<open>writeFile\<close> rejects: the update and
  the reply of lines 138-146 are skipped, nothing is replied and the account stays owned by
  node 7.
\<close>

theorem C4_logout_write_rejected:
  "PlayerLoading_verify env0 (from_base64 env0 save0)
   \<and> writeFile_rejects env0 (savePath ''main'' ''x/y'') (from_base64 env0 save0)
   \<and> fst (on_message env0 clk0 (Player_logout 12 ''x/y'' save0 ''main'') st1) = []
   \<and> map username (accounts (snd (on_message env0 clk0 (Player_logout 12 ''x/y'' save0 ''main'') st1)))
       = [''x/y'']
   \<and> map logged_in (accounts (snd (on_message env0 clk0 (Player_logout 12 ''x/y'' save0 ''main'') st1)))
       = [7]"
  by (simp add: eval_defs save0_def st1_def xy_def)

text \<open>
  C5 (world start-up), as amended: for a node id other than 0, after the start-up message no
  account has \<open>logged_in\<close> equal to the node id; the rows that had it are reset to
  \<open>logged_in = 0\<close> and \<open>login_time = null\<close>, every other row, the sessions and the files are
  unchanged, and nothing is replied.
\<close>

theorem C5_world_startup:
  assumes "nodeId \<noteq> 0"
  shows "fst (on_message e clk (World_startup nodeId) st) = []
   \<and> (\<forall>a \<in> set (accounts (snd (on_message e clk (World_startup nodeId) st))). logged_in a \<noteq> nodeId)
   \<and> accounts (snd (on_message e clk (World_startup nodeId) st))
       = map (\<lambda>a. if logged_in a = nodeId then a\<lparr>logged_in := 0, login_time := None\<rparr> else a)
           (accounts st)
   \<and> sessions (snd (on_message e clk (World_startup nodeId) st)) = sessions st
   \<and> files (snd (on_message e clk (World_startup nodeId) st)) = files st"
  using assms by (auto simp add: updateTable_def)

text \<open>
  At node 7, which owns \<open>bob\<close>.
\<close>

theorem C5_world_startup_witness:
  "(7::int) \<noteq> 0 \<and> logged_in bob = 7
   \<and> accounts (snd (on_message env0 clk0 (World_startup 7) st0))
       = [bob\<lparr>logged_in := 0, login_time := None\<rparr>, carol, dave]"
proof -
  have n: "(7::int) \<noteq> 0" by simp
  have b: "logged_in bob = 7" by (simp add: bob_def)
  have m: "map (\<lambda>a. if logged_in a = 7 then a\<lparr>logged_in := 0, login_time := None\<rparr> else a)
             (accounts st0) = [bob\<lparr>logged_in := 0, login_time := None\<rparr>, carol, dave]"
    by (simp add: st0_def bob_def carol_def dave_def)
  from C5_world_startup [OF n, of env0 clk0 st0, unfolded m] n b
  show ?thesis by blast
qed

text \<open>
  For the node id 0 the claim fails: the rows reset to 0 are the rows whose \<open>logged_in\<close> is
  the node id, and \<open>carol\<close> and \<open>dave\<close> (unowned) still have \<open>logged_in\<close> equal to it
  afterwards.
\<close>

theorem C5_startup_of_node_zero:
  "map logged_in (accounts st0) = [7, 0, 0]
   \<and> map logged_in (accounts (snd (on_message env0 clk0 (World_startup 0) st0))) = [7, 0, 0]"
  by (simp add: eval_defs)

text \<open>
  C7 (autosave): an autosave sends no reply and leaves the account table (so \<open>logged_in\<close> and
  \<open>login_time\<close> of every account) and the sessions unchanged; the files are unchanged or
  changed by the one write of the decoded save at the save path: unchanged when the save
  does not verify, written when it verifies and neither \<^verbatim>\<open>mkdir\<close> nor \<^verbatim>\<open>writeFile\<close> rejects.
\<close>

theorem C7_autosave_frame:
  "fst (on_message e clk (Player_autosave user sv prof) st) = []
   \<and> accounts (snd (on_message e clk (Player_autosave user sv prof) st)) = accounts st
   \<and> sessions (snd (on_message e clk (Player_autosave user sv prof) st)) = sessions st
   \<and> (files (snd (on_message e clk (Player_autosave user sv prof) st)) = files st
      \<or> files (snd (on_message e clk (Player_autosave user sv prof) st))
          = writeFile e (savePath prof user) (from_base64 e sv) (files st))
   \<and> (\<not> PlayerLoading_verify e (from_base64 e sv) \<longrightarrow>
        files (snd (on_message e clk (Player_autosave user sv prof) st)) = files st)
   \<and> (PlayerLoading_verify e (from_base64 e sv)
        \<and> \<not> mkdir_rejects e (profileDir prof)
        \<and> \<not> writeFile_rejects e (savePath prof user) (from_base64 e sv) \<longrightarrow>
        files (snd (on_message e clk (Player_autosave user sv prof) st))
          = writeFile e (savePath prof user) (from_base64 e sv) (files st))"
proof -
  let ?R = "on_message e clk (Player_autosave user sv prof) st"
  let ?raw = "from_base64 e sv"
  let ?w = "writeFile e (savePath prof user) ?raw (files st)"
  consider (skipped) "\<not> PlayerLoading_verify e ?raw"
    | (written) "PlayerLoading_verify e ?raw" "\<not> mkdir_rejects e (profileDir prof)"
        "\<not> writeFile_rejects e (savePath prof user) ?raw"
    | (rejected) "PlayerLoading_verify e ?raw"
        "mkdir_rejects e (profileDir prof) \<or> writeFile_rejects e (savePath prof user) ?raw"
    by blast
  then show ?thesis
  proof cases
    case skipped
    from verify_and_write_skipped [OF skipped] have "?R = ([], st)"
      by simp
    with skipped show ?thesis by simp
  next
    case written
    from verify_and_write_written [OF written] have "?R = ([], st\<lparr>files := ?w\<rparr>)"
      by simp
    with written show ?thesis by simp
  next
    case rejected
    from verify_and_write_rejected [OF rejected] obtain err where
      "verify_and_write e prof user sv st = Inl err" by blast
    then have "?R = ([], st)"
      by simp
    with rejected show ?thesis by auto
  qed
qed

text \<open>
  At \<open>bob\<close>: an autosave of the verifying \<open>save0\<close>, which is written, and an autosave of a
  save that does not verify.
\<close>

theorem C7_autosave_frame_witness:
  "PlayerLoading_verify env0 (from_base64 env0 save0)
   \<and> fst (on_message env0 clk0 (Player_autosave ''bob'' save0 ''main'') st0) = []
   \<and> accounts (snd (on_message env0 clk0 (Player_autosave ''bob'' save0 ''main'') st0)) = accounts st0
   \<and> files (snd (on_message env0 clk0 (Player_autosave ''bob'' save0 ''main'') st0))
        (savePath ''main'' ''bob'') = Some (from_base64 env0 save0)
   \<and> \<not> PlayerLoading_verify env0 (from_base64 env0 ''xx'')
   \<and> files (snd (on_message env0 clk0 (Player_autosave ''bob'' ''xx'' ''main'') st0)) = files st0"
proof -
  have v: "PlayerLoading_verify env0 (from_base64 env0 save0)"
    "\<not> PlayerLoading_verify env0 (from_base64 env0 ''xx'')"
    by (simp_all add: env0_def save0_def)
  have w: "\<not> mkdir_rejects env0 (profileDir ''main'')"
    "\<not> writeFile_rejects env0 (savePath ''main'' ''bob'') (from_base64 env0 save0)"
    by (simp_all add: env0_def savePath_def)
  note t = C7_autosave_frame [of env0 clk0 "''bob''" _ "''main''" st0]
  from t [of save0] v(1) w have
    "files (snd (on_message env0 clk0 (Player_autosave ''bob'' save0 ''main'') st0))
       = writeFile env0 (savePath ''main'' ''bob'') (from_base64 env0 save0) (files st0)"
    by blast
  then have "files (snd (on_message env0 clk0 (Player_autosave ''bob'' save0 ''main'') st0))
        (savePath ''main'' ''bob'') = Some (from_base64 env0 save0)"
    by (simp only: writeFile_same_path)
  with t [of save0] t [of "''xx''"] v show ?thesis by blast
qed

text \<open>
  C8 (save round trip), as amended. Let the message be a logout or an autosave of a save for
  (profile, username). If the decoded save verifies and neither \<^verbatim>\<open>mkdir\<close> nor \<^verbatim>\<open>writeFile\<close>
  rejects, the file at the save path then holds exactly the decoded bytes; every reply with
  code 0 of a following login for the same (profile, username) carries the encoding of these
  bytes; and such a login does send that reply when the account is found, the password
  verifies, the account is not banned and the account is unowned or owned by the requesting
  node. If the decoded save does not verify, the files are unchanged.
\<close>

theorem C8_save_round_trip:
  assumes m: "m = Player_logout rt user sv prof \<or> m = Player_autosave user sv prof"
  shows
  "(PlayerLoading_verify e (from_base64 e sv)
      \<and> \<not> mkdir_rejects e (profileDir prof)
      \<and> \<not> writeFile_rejects e (savePath prof user) (from_base64 e sv) \<longrightarrow>
      files (snd (on_message e clk m st)) (savePath prof user) = Some (from_base64 e sv)
      \<and> (\<forall>r \<in> set (fst (on_message e clk2
                           (Player_login rt2 user pw uid' sock addr nodeId nodeTime prof)
                           (snd (on_message e clk m st)))).
            response r = Some (JNum 0) \<longrightarrow>
            map_of r ''save'' = Some (JStr (to_base64 e (from_base64 e sv))))
      \<and> (\<forall>acc. selectAccount user (accounts (snd (on_message e clk m st))) = Some acc
                 \<and> bcrypt_compare e (toLowerCase e pw) (password acc)
                 \<and> \<not> banned_at (ban_check_date clk2) acc
                 \<and> (logged_in acc = 0 \<or> logged_in acc = nodeId)
            \<longrightarrow> [(''replyTo'', JNum rt2), (''response'', JNum 0),
                 (''staffmodlevel'', JNum (staffmodlevel acc)),
                 (''save'', JStr (to_base64 e (from_base64 e sv))),
                 (''muted_until'', json_date (muted_until acc))]
                \<in> set (fst (on_message e clk2
                           (Player_login rt2 user pw uid' sock addr nodeId nodeTime prof)
                           (snd (on_message e clk m st))))))
   \<and> (\<not> PlayerLoading_verify e (from_base64 e sv) \<longrightarrow>
        files (snd (on_message e clk m st)) = files st)"
proof -
  let ?st1 = "snd (on_message e clk m st)"
  let ?raw = "from_base64 e sv"
  let ?L = "on_message e clk2 (Player_login rt2 user pw uid' sock addr nodeId nodeTime prof) ?st1"
  let ?ok = "PlayerLoading_verify e ?raw \<and> \<not> mkdir_rejects e (profileDir prof)
      \<and> \<not> writeFile_rejects e (savePath prof user) ?raw"
  have invalid: "\<not> PlayerLoading_verify e ?raw \<longrightarrow> files ?st1 = files st"
    using files_after_write [OF m verify_and_write_skipped] by blast
  have valid: "files ?st1 (savePath prof user) = Some ?raw" if ?ok
  proof -
    from that have "verify_and_write e prof user sv st
         = Inr (st\<lparr>files := writeFile e (savePath prof user) ?raw (files st)\<rparr>)"
      by (simp add: verify_and_write_written)
    from files_after_write [OF m this] show ?thesis
      by (simp add: writeFile_same_path)
  qed
  have read: "map_of r ''save'' = Some (JStr (to_base64 e ?raw))"
    if v: ?ok and r: "r \<in> set (fst ?L)" and c: "response r = Some (JNum 0)" for r
  proof -
    from r have "r \<in> set (fst (player_login e clk2 rt2 user pw uid' sock addr nodeId nodeTime prof ?st1))"
      by simp
    from player_login_code0 [OF this c] obtain sv' where
      "files ?st1 (savePath prof user) = Some sv'"
      and s: "map_of r ''save'' = Some (JStr (to_base64 e sv'))"
      by blast
    with valid [OF v] have "sv' = ?raw" by simp
    with s show ?thesis by simp
  qed
  have again: "[(''replyTo'', JNum rt2), (''response'', JNum 0),
                 (''staffmodlevel'', JNum (staffmodlevel acc)),
                 (''save'', JStr (to_base64 e ?raw)),
                 (''muted_until'', json_date (muted_until acc))] \<in> set (fst ?L)"
    if v: ?ok
      and sel: "selectAccount user (accounts ?st1) = Some acc"
      and pw: "bcrypt_compare e (toLowerCase e pw) (password acc)"
      and nb: "\<not> banned_at (ban_check_date clk2) acc"
      and own: "logged_in acc = 0 \<or> logged_in acc = nodeId" for acc
  proof -
    let ?st2 = "?st1\<lparr>sessions := sessions ?st1 @
                   [\<lparr>uuid = sock, account_id = id_col acc, profile = prof, world = nodeId,
                     timestamp = toDbDate e nodeTime, uid = uid', ip = addr\<rparr>]\<rparr>"
    have "files ?st2 (savePath prof user) = Some ?raw"
      using valid [OF v] by simp
    note c = claim_and_reply_with_save [OF this, of e clk2 acc rt2 nodeId]
    show ?thesis
    proof (cases "logged_in acc = nodeId")
      case True
      then show ?thesis
        using c by (auto simp add: player_login_verified [OF sel pw nb] split: prod.splits)
    next
      case False
      with own have "logged_in acc = 0" by simp
      with False show ?thesis
        using c by (simp add: player_login_verified [OF sel pw nb])
    qed
  qed
  from invalid valid read again show ?thesis by blast
qed

text \<open>
  At \<open>bob\<close>: a logout with the verifying save \<open>save0\<close>, then a login from node 9, which is
  answered with code 0 and the same save.
\<close>

theorem C8_save_round_trip_witness:
  "PlayerLoading_verify env0 (from_base64 env0 save0)
   \<and> files (snd (on_message env0 clk0 (Player_logout 12 ''bob'' save0 ''main'') st0))
        (savePath ''main'' ''bob'') = Some (from_base64 env0 save0)
   \<and> fst (on_message env0 clk0 (Player_login 13 ''bob'' ''pw'' 0 ''s'' ''ip'' 9 900 ''main'')
          (snd (on_message env0 clk0 (Player_logout 12 ''bob'' save0 ''main'') st0)))
       = [[(''replyTo'', JNum 13), (''response'', JNum 0), (''staffmodlevel'', JNum 0),
           (''save'', JStr save0), (''muted_until'', JNull)]]
   \<and> map_of [(''replyTo'', JNum 13), (''response'', JNum 0), (''staffmodlevel'', JNum 0),
              (''save'', JStr save0), (''muted_until'', JNull)] ''save''
       = Some (JStr (to_base64 env0 (from_base64 env0 save0)))"
proof -
  let ?st1 = "snd (on_message env0 clk0 (Player_logout 12 ''bob'' save0 ''main'') st0)"
  let ?r = "[(''replyTo'', JNum 13), (''response'', JNum 0), (''staffmodlevel'', JNum 0),
             (''save'', JStr save0), (''muted_until'', JNull)]"
  have v: "PlayerLoading_verify env0 (from_base64 env0 save0)"
    by (simp add: env0_def save0_def)
  have w: "\<not> mkdir_rejects env0 (profileDir ''main'')"
    "\<not> writeFile_rejects env0 (savePath ''main'' ''bob'') (from_base64 env0 save0)"
    by (simp_all add: env0_def savePath_def)
  have l: "fst (on_message env0 clk0 (Player_login 13 ''bob'' ''pw'' 0 ''s'' ''ip'' 9 900 ''main'') ?st1)
             = [?r]"
    by (simp add: eval_defs save0_def Let_def char_of_def bit_Suc_0_iff)
  then have r: "?r \<in> set (fst (on_message env0 clk0
                    (Player_login 13 ''bob'' ''pw'' 0 ''s'' ''ip'' 9 900 ''main'') ?st1))"
    by simp
  have c: "response ?r = Some (JNum 0)"
    by (simp add: response_def)
  have m: "Player_logout 12 ''bob'' save0 ''main'' = Player_logout 12 ''bob'' save0 ''main''
           \<or> Player_logout 12 ''bob'' save0 ''main'' = Player_autosave ''bob'' save0 ''main''"
    by simp
  note t = C8_save_round_trip [OF m, of env0 clk0 st0 clk0 13 "''pw''" 0 "''s''" "''ip''" 9 900]
  from t v w have "files ?st1 (savePath ''main'' ''bob'') = Some (from_base64 env0 save0)"
    by blast
  moreover from t v w r c have "map_of ?r ''save'' = Some (JStr (to_base64 env0 (from_base64 env0 save0)))"
    by blast
  ultimately show ?thesis using v l by blast
qed

text \<open>
  Without the condition on the write the claim fails. For the username \<open>x/y\<close> the write of
  the verifying \<open>save0\<close> rejects in the file system of \<open>env0\<close> (the directory
  \<^verbatim>\<open>data/players/main/x\<close> is missing): after the logout nothing is stored at the save path,
  and the following login, accepted, is answered with code 4 and no save.
\<close>

theorem C8_write_rejected_nothing_stored:
  "PlayerLoading_verify env0 (from_base64 env0 save0)
   \<and> files (snd (on_message env0 clk0 (Player_logout 12 ''x/y'' save0 ''main'') st2))
        (savePath ''main'' ''x/y'') = None
   \<and> fst (on_message env0 clk0 (Player_login 13 ''x/y'' ''pw'' 0 ''s'' ''ip'' 9 900 ''main'')
          (snd (on_message env0 clk0 (Player_logout 12 ''x/y'' save0 ''main'') st2)))
       = [[(''replyTo'', JNum 13), (''response'', JNum 4), (''staffmodlevel'', JNum 0),
           (''muted_until'', JNull)]]"
  by (simp add: eval_defs save0_def st2_def xy_def)

end
